theory Spec2Isabelle
  imports Main
begin

section \<open>Passkey demo page: the three pipelines of \<open>src/pages/index.tsx\<close>\<close>

text \<open>
  The page component holds four pieces of React state (\<open>wallet\<close>, \<open>smartWallet\<close>,
  \<open>txHash\<close>, \<open>userOpHash\<close>) and three asynchronous handlers: \<open>signMessage\<close>,
  \<open>createSubOrgAndWallet\<close> and \<open>login\<close>. A handler reads the state captured by its
  closure, awaits remote and library calls one after the other, and issues state
  setters, \<open>console.error\<close> and \<open>alert\<close>.

  A run of a handler is modelled as the list of events it performs, in order, together
  with how it ends (a thrown value or a return value). The outcome of every call that
  leaves the file (key service, backend, paymaster, relay, library) is a parameter: a
  function from the call's arguments to either the value the promise resolves to or the
  value it rejects with. The state after a run is the captured state with the run's
  setter events applied.

  The effect hook, which logs the user out of the key service while no wallet is set,
  writes none of the four pieces of state and is left out.
\<close>

subsection \<open>Thrown values\<close>

text \<open>
  A thrown JavaScript value: an \<open>Error\<close> object with its \<open>name\<close> and \<open>message\<close>;
  \<open>undefined\<close> or \<open>null\<close>, kept as that word; or any other value, kept as the
  string \<open>String(v)\<close> gives.
\<close>

datatype exn = JsError string string | JsNullish string | JsValue string

text \<open>\<open>error instanceof Error ? error.message : String(error)\<close>\<close>

fun errorMessage :: "exn \<Rightarrow> string" where
  "errorMessage (JsError n m) = m"
| "errorMessage (JsNullish v) = v"
| "errorMessage (JsValue v) = v"

text \<open>
  Reading a property of \<open>undefined\<close> or \<open>null\<close> throws a \<open>TypeError\<close> that names
  the value and, in quotes, the property (the wording of the V8 engine).
\<close>

definition cannotReadOf :: "string \<Rightarrow> string \<Rightarrow> exn" where
  "cannotReadOf v prop =
     JsError ''TypeError''
       (''Cannot read properties of '' @ v @ '' (reading '' @ [CHR 0x27] @ prop @
        [CHR 0x27] @ '')'')"

definition cannotRead :: "string \<Rightarrow> exn" where
  "cannotRead prop = cannotReadOf ''undefined'' prop"

text \<open>
  \<open>e.toString()\<close>: for an \<open>Error\<close>, the name and the message joined by a colon; on
  \<open>undefined\<close> and \<open>null\<close> the call itself throws.
\<close>

fun toString :: "exn \<Rightarrow> exn + string" where
  "toString (JsError n m) =
     Inr (if n = [] then m else if m = [] then n else n @ '': '' @ m)"
| "toString (JsNullish v) = Inl (cannotReadOf v ''toString'')"
| "toString (JsValue v) = Inr v"

subsection \<open>Data\<close>

text \<open>\<open>TWalletDetails\<close> (the field \<open>id\<close> is written \<open>id'\<close>).\<close>

record TWalletDetails =
  id' :: string
  address :: string
  subOrgId :: string

text \<open>
  Modelled from the spec: \<open>SafeAccount\<close> is a class of the library
  \<open>abstractionkit\<close>, whose code is not part of the sources. Section 3 gives a
  SmartAccount two attributes, the computed address and the list of owners.
\<close>

record SafeAccount =
  accountAddress :: string
  owners :: "string list"

text \<open>\<open>MetaTransaction\<close>: the fields \<open>to\<close>, \<open>value\<close> and \<open>data\<close>.\<close>

record MetaTransaction =
  mtTo :: string
  mtValue :: int
  mtData :: string

definition zeroAddress :: string where
  "zeroAddress = ''0x0000000000000000000000000000000000000000''"

text \<open>
  Modelled from the spec: the \<open>UserOperation\<close> type is declared in
  \<open>abstractionkit\<close>. Section 3 lists its parts: the encoded intents, gas and fee
  parameters, paymaster fields and the signature. The page itself only writes
  \<open>signature\<close>.
\<close>

record UserOperation =
  sender :: string
  nonce :: int
  callData :: string
  callGasLimit :: int
  verificationGasLimit :: int
  preVerificationGas :: int
  maxFeePerGas :: int
  maxPriorityFeePerGas :: int
  paymaster :: string
  paymasterVerificationGasLimit :: int
  paymasterPostOpGasLimit :: int
  paymasterData :: string
  signature :: string

text \<open>The result of \<open>SafeAccount.getUserOperationEip712Data\<close>.\<close>

record Eip712Data =
  domain :: string
  types :: string
  messageValue :: string

text \<open>The argument of \<open>viemClient.signTypedData\<close>.\<close>

record TypedDataRequest =
  reqDomain :: string
  reqTypes :: string
  reqMessage :: string
  primaryType :: string

text \<open>The account \<open>createAccount\<close> of \<open>@turnkey/viem\<close> resolves to.\<close>

record ViemAccount =
  signerOrganizationId :: string
  signerAddress :: string

text \<open>\<open>createWalletClient({account, chain: sepolia, transport: http()})\<close>\<close>

record WalletClient =
  account :: ViemAccount
  chain :: string
  transport :: string

definition createWalletClient :: "ViemAccount \<Rightarrow> WalletClient" where
  "createWalletClient a = \<lparr>account = a, chain = ''sepolia'', transport = ''http''\<rparr>"

record SendUseroperationResponse =
  userOperationHash :: string

record UserOperationReceipt =
  transactionHash :: string

record UserOperationReceiptResult =
  receipt :: UserOperationReceipt

text \<open>What the passkey ceremony returns.\<close>

record Credential =
  encodedChallenge :: string
  attestation :: "string option"

text \<open>What the read-only login, the wallet list and the account list return.\<close>

record LoginResponse =
  organizationId :: string

datatype UserSession = UserSession string

datatype Wallet = Wallet (walletId: string)

datatype WalletAccount = WalletAccount (accountAddr: string)

record WalletsResponse =
  wallets :: "Wallet list"

record WalletAccountsResponse =
  accounts :: "WalletAccount list"

text \<open>The configuration read from the environment at module load.\<close>

record config =
  bundlerUrl :: string
  chainId :: int
  paymasterUrl :: string
  nodeUrl :: string
  sponsorshipId :: string

subsection \<open>State, events and calls\<close>

record state =
  wallet :: "TWalletDetails option"
  smartWallet :: "SafeAccount option"
  txHash :: string
  userOpHash :: string

text \<open>Every call that leaves the file, with its arguments.\<close>

datatype call =
    CreateAccount string string string
  | CreateUserOperation SafeAccount "MetaTransaction list" string string
  | CreateSponsorPaymasterUserOperation string UserOperation string string
  | GetUserOperationEip712Data UserOperation int
  | SignTypedData WalletClient TypedDataRequest
  | FormatEip712Signatures "string list" "string list"
  | SendUserOperation SafeAccount UserOperation string
  | Included SendUseroperationResponse
  | CreateUserPasskey string
  | PostCreateSubOrg string string "string option"
  | InitializeNewAccount "string list"
  | PasskeyLogin
  | CurrentUserSession
  | GetWallets UserSession
  | GetWalletAccounts UserSession string string

datatype event =
    SetTxHash string
  | SetUserOpHash string
  | SetWallet TWalletDetails
  | SetSmartWallet SafeAccount
  | ConsoleError string "exn option"
  | Alert string
  | Call call

text \<open>
  What \<open>useTurnkey()\<close> gives (\<open>passkeyClient\<close> and \<open>turnkey\<close>, each present or
  undefined) and the outcome of each call: \<open>Inr\<close> the value the call yields,
  \<open>Inl\<close> the value it throws. In an option, \<open>None\<close> stands for \<open>undefined\<close>.
\<close>

record services =
  passkeyClient :: bool
  turnkey :: bool
  createAccount :: "string \<Rightarrow> string \<Rightarrow> string \<Rightarrow> exn + ViemAccount"
  createUserOperation ::
    "SafeAccount \<Rightarrow> MetaTransaction list \<Rightarrow> string \<Rightarrow> string \<Rightarrow> exn + UserOperation"
  createSponsorPaymasterUserOperation ::
    "string \<Rightarrow> UserOperation \<Rightarrow> string \<Rightarrow> string \<Rightarrow> exn + (UserOperation \<times> string option)"
  getUserOperationEip712Data :: "UserOperation \<Rightarrow> int \<Rightarrow> exn + Eip712Data"
  signTypedData :: "WalletClient \<Rightarrow> TypedDataRequest \<Rightarrow> exn + string"
  formatEip712SignaturesToUseroperationSignature ::
    "string list \<Rightarrow> string list \<Rightarrow> exn + string"
  sendUserOperation ::
    "SafeAccount \<Rightarrow> UserOperation \<Rightarrow> string \<Rightarrow> exn + SendUseroperationResponse"
  included :: "SendUseroperationResponse \<Rightarrow> exn + UserOperationReceiptResult"
  createUserPasskey :: "string \<Rightarrow> exn + Credential option"
  postCreateSubOrg :: "string \<Rightarrow> string \<Rightarrow> string option \<Rightarrow> exn + TWalletDetails"
  createAccountAddress :: "string list \<Rightarrow> exn + string"
  passkeyLogin :: "exn + LoginResponse option"
  currentUserSession :: "exn + UserSession option"
  getWallets :: "UserSession \<Rightarrow> exn + WalletsResponse option"
  getWalletAccounts ::
    "UserSession \<Rightarrow> string \<Rightarrow> string \<Rightarrow> exn + WalletAccountsResponse option"

text \<open>A run so far: the events performed and either the thrown value or the result.\<close>

type_synonym 'a run = "event list \<times> (exn + 'a)"

definition ret :: "'a \<Rightarrow> 'a run" where
  "ret x = ([], Inr x)"

definition throw :: "exn \<Rightarrow> 'a run" where
  "throw e = ([], Inl e)"

definition emit :: "event \<Rightarrow> unit run" where
  "emit ev = ([ev], Inr ())"

text \<open>\<open>await c r\<close>: the call \<open>c\<close> is made and has the outcome \<open>r\<close>.\<close>

definition await :: "call \<Rightarrow> exn + 'a \<Rightarrow> 'a run" where
  "await c r = ([Call c], r)"

text \<open>
  \<open>client?.method(...)\<close>: with the client undefined no call is made and the value is
  \<open>undefined\<close>.
\<close>

definition optionalCall :: "bool \<Rightarrow> call \<Rightarrow> exn + 'a option \<Rightarrow> 'a option run" where
  "optionalCall present c r = (if present then await c r else ret None)"

text \<open>Sequencing: a throw skips the rest of the \<open>try\<close> block.\<close>

definition seq :: "'a run \<Rightarrow> ('a \<Rightarrow> 'b run) \<Rightarrow> 'b run" where
  "seq m f =
     (case m of
        (t, Inl e) \<Rightarrow> (t, Inl e)
      | (t, Inr x) \<Rightarrow> (case f x of (t', r) \<Rightarrow> (t @ t', r)))"

text \<open>The setters are the only events that change the state.\<close>

fun apply_event :: "state \<Rightarrow> event \<Rightarrow> state" where
  "apply_event s (SetTxHash h) = s\<lparr>txHash := h\<rparr>"
| "apply_event s (SetUserOpHash h) = s\<lparr>userOpHash := h\<rparr>"
| "apply_event s (SetWallet w) = s\<lparr>wallet := Some w\<rparr>"
| "apply_event s (SetSmartWallet a) = s\<lparr>smartWallet := Some a\<rparr>"
| "apply_event s (ConsoleError m e) = s"
| "apply_event s (Alert m) = s"
| "apply_event s (Call c) = s"

definition after :: "state \<Rightarrow> event list \<Rightarrow> state" where
  "after s t = foldl apply_event s t"

text \<open>\<open>useState\<close> initial values.\<close>

definition initial :: state where
  "initial = \<lparr>wallet = None, smartWallet = None, txHash = [], userOpHash = []\<rparr>"

subsection \<open>The Smart Account Deriver\<close>

text \<open>
  Modelled from the spec: \<open>SafeAccount.initializeNewAccount\<close> is library code that
  is not part of the sources. Section 4.3: a pure function from a non-empty ordered
  list of owner addresses to the account address, with no failure other than invalid
  input; the empty owner list is rejected. The address computation itself is the
  parameter \<open>createAccountAddress\<close>, which may reject its input.
\<close>

definition initializeNewAccount :: "services \<Rightarrow> string list \<Rightarrow> exn + SafeAccount" where
  "initializeNewAccount sv os =
     (if os = [] then Inl (JsError ''RangeError'' ''InvalidOwnerSet'')
      else case createAccountAddress sv os of
             Inl e \<Rightarrow> Inl e
           | Inr a \<Rightarrow> Inr \<lparr>accountAddress = a, owners = os\<rparr>)"

subsection \<open>signMessage\<close>

definition signMessage_try :: "services \<Rightarrow> config \<Rightarrow> state \<Rightarrow> unit run" where
  "signMessage_try sv cfg s =
     seq (emit (SetTxHash [])) (\<lambda>_.
     seq (emit (SetUserOpHash [])) (\<lambda>_.
     case (wallet s, smartWallet s) of
       (Some w, Some sw) \<Rightarrow>
         seq (await (CreateAccount (subOrgId w) (address w) (address w))
                (createAccount sv (subOrgId w) (address w) (address w))) (\<lambda>viemAccount.
         let viemClient = createWalletClient viemAccount;
             transaction = \<lparr>mtTo = zeroAddress, mtValue = 0, mtData = ''0x''\<rparr>
         in
         seq (await (CreateUserOperation sw [transaction] (nodeUrl cfg) (bundlerUrl cfg))
                (createUserOperation sv sw [transaction] (nodeUrl cfg) (bundlerUrl cfg)))
           (\<lambda>builderUserOp.
         seq (await (CreateSponsorPaymasterUserOperation (paymasterUrl cfg) builderUserOp
                       (bundlerUrl cfg) (sponsorshipId cfg))
                (createSponsorPaymasterUserOperation sv (paymasterUrl cfg) builderUserOp
                       (bundlerUrl cfg) (sponsorshipId cfg)))
           (\<lambda>paymasterUserOp.
         let userOperation = fst paymasterUserOp in
         seq (await (GetUserOperationEip712Data userOperation (chainId cfg))
                (getUserOperationEip712Data sv userOperation (chainId cfg))) (\<lambda>d.
         let request = \<lparr>reqDomain = domain d, reqTypes = types d,
                        reqMessage = messageValue d, primaryType = ''SafeOp''\<rparr>
         in
         seq (await (SignTypedData viemClient request)
                (signTypedData sv viemClient request)) (\<lambda>eip712Signature.
         seq (await (FormatEip712Signatures [address w] [eip712Signature])
                (formatEip712SignaturesToUseroperationSignature sv
                   [address w] [eip712Signature])) (\<lambda>sig.
         let userOperation = userOperation\<lparr>signature := sig\<rparr> in
         seq (await (SendUserOperation sw userOperation (bundlerUrl cfg))
                (sendUserOperation sv sw userOperation (bundlerUrl cfg)))
           (\<lambda>sendUserOpResponse.
         seq (emit (SetUserOpHash (userOperationHash sendUserOpResponse))) (\<lambda>_.
         seq (await (Included sendUserOpResponse) (included sv sendUserOpResponse))
           (\<lambda>receiptResult.
         emit (SetTxHash (transactionHash (receipt receiptResult))))))))))))
     | _ \<Rightarrow> throw (JsError ''Error'' ''wallet not found'')))"

text \<open>The \<open>catch\<close> block logs the thrown value and alerts its message.\<close>

definition signMessage :: "services \<Rightarrow> config \<Rightarrow> state \<Rightarrow> event list" where
  "signMessage sv cfg s =
     (case signMessage_try sv cfg s of
        (t, Inl e) \<Rightarrow>
          t @ [ConsoleError ''Error:'' (Some e),
               Alert (''Failed to submit user operation: '' @ errorMessage e)]
      | (t, Inr _) \<Rightarrow> t)"

subsection \<open>createSubOrgAndWallet\<close>

definition replaceAll :: "char \<Rightarrow> char \<Rightarrow> string \<Rightarrow> string" where
  "replaceAll a b str = map (\<lambda>c. if c = a then b else c) str"

text \<open>
  \<open>humanReadableDateTime\<close>, given the string \<open>new Date().toLocaleString()\<close> returns.
\<close>

definition humanReadableDateTime :: "string \<Rightarrow> string" where
  "humanReadableDateTime localeString =
     replaceAll CHR '':'' CHR ''.'' (replaceAll CHR ''/'' CHR ''-'' localeString)"

text \<open>
  The handler has no \<open>try\<close>: a thrown value rejects the promise it returns. It
  returns \<open>false\<close> when the ceremony gave no credential, no challenge or no
  attestation, and nothing (\<open>None\<close>) at its end.
\<close>

definition createSubOrgAndWallet :: "services \<Rightarrow> string \<Rightarrow> bool option run" where
  "createSubOrgAndWallet sv localeString =
     (let subOrgName = ''Turnkey Viem+Passkey Demo - '' @ humanReadableDateTime localeString
      in
      seq (optionalCall (passkeyClient sv) (CreateUserPasskey subOrgName)
             (createUserPasskey sv subOrgName))
        (\<lambda>credential.
      case credential of
        None \<Rightarrow> ret (Some False)
      | Some c \<Rightarrow>
          if encodedChallenge c = [] \<or> attestation c = None then ret (Some False)
          else
          seq (await (PostCreateSubOrg subOrgName (encodedChallenge c) (attestation c))
                 (postCreateSubOrg sv subOrgName (encodedChallenge c) (attestation c)))
            (\<lambda>response.
          seq (await (InitializeNewAccount [address response])
                 (initializeNewAccount sv [address response])) (\<lambda>smartAccount.
          seq (emit (SetSmartWallet smartAccount)) (\<lambda>_.
          seq (emit (SetWallet response)) (\<lambda>_.
          ret None))))))"

subsection \<open>login\<close>

text \<open>
  \<open>walletsResponse?.wallets[0].walletId\<close>: \<open>undefined\<close> when the response is
  undefined; otherwise element 0 is read, and reading \<open>walletId\<close> of the
  \<open>undefined\<close> that an empty array gives throws.
\<close>

definition firstWalletId :: "WalletsResponse option \<Rightarrow> string option run" where
  "firstWalletId r =
     (case r of
        None \<Rightarrow> ret None
      | Some r \<Rightarrow>
          (case wallets r of
             [] \<Rightarrow> throw (cannotRead ''walletId'')
           | w # _ \<Rightarrow> ret (Some (walletId w))))"

text \<open>\<open>walletAccountsResponse?.accounts[0].address\<close>, in the same way.\<close>

definition firstAccountAddress :: "WalletAccountsResponse option \<Rightarrow> string option run" where
  "firstAccountAddress r =
     (case r of
        None \<Rightarrow> ret None
      | Some r \<Rightarrow>
          (case accounts r of
             [] \<Rightarrow> throw (cannotRead ''address'')
           | a # _ \<Rightarrow> ret (Some (accountAddr a))))"

text \<open>
  The body of the \<open>try\<close> block. Each of the four guards returns early. The wallet id
  and the address are read again after their guards (lines 193, 205 and 210), with the
  same result as in the guard.
\<close>

definition login_try :: "services \<Rightarrow> unit run" where
  "login_try sv =
     seq (optionalCall (passkeyClient sv) PasskeyLogin (passkeyLogin sv)) (\<lambda>loginResponse.
     case loginResponse of
       None \<Rightarrow> ret ()
     | Some lr \<Rightarrow>
         if organizationId lr = [] then ret ()
         else
         seq (optionalCall (turnkey sv) CurrentUserSession (currentUserSession sv))
           (\<lambda>currentUserSession.
         case currentUserSession of
           None \<Rightarrow> ret ()
         | Some cs \<Rightarrow>
             seq (await (GetWallets cs) (getWallets sv cs)) (\<lambda>walletsResponse.
             seq (firstWalletId walletsResponse) (\<lambda>firstId.
             case firstId of
               None \<Rightarrow> ret ()
             | Some wid \<Rightarrow>
                 if wid = [] then ret ()
                 else
                 seq (await (GetWalletAccounts cs (organizationId lr) wid)
                        (getWalletAccounts sv cs (organizationId lr) wid))
                   (\<lambda>walletAccountsResponse.
                 seq (firstAccountAddress walletAccountsResponse) (\<lambda>addr.
                 case addr of
                   None \<Rightarrow> ret ()
                 | Some a \<Rightarrow>
                     if a = [] then ret ()
                     else
                     seq (emit (SetWallet
                            \<lparr>id' = wid, address = a, subOrgId = organizationId lr\<rparr>))
                       (\<lambda>_.
                     seq (await (InitializeNewAccount [a]) (initializeNewAccount sv [a]))
                       (\<lambda>smartAccount.
                     emit (SetSmartWallet smartAccount)))))))))"

text \<open>
  The \<open>catch\<close> block logs and alerts \<open>caught error: \<close> followed by \<open>e.toString()\<close>.
  When \<open>e.toString()\<close> throws, the block ends there: nothing is logged or alerted,
  and the promise the handler returns is rejected.
\<close>

definition login_catch :: "exn \<Rightarrow> event list" where
  "login_catch e =
     (case toString e of
        Inl thrown \<Rightarrow> []
      | Inr str \<Rightarrow>
          (let message = ''caught error: '' @ str
           in [ConsoleError message None, Alert message]))"

definition login :: "services \<Rightarrow> event list" where
  "login sv =
     (case login_try sv of
        (t, Inl e) \<Rightarrow> t @ login_catch e
      | (t, Inr _) \<Rightarrow> t)"

subsection \<open>What the page shows\<close>

text \<open>
  The conditional blocks of the returned markup: the sub-organization id and the
  smart account address when \<open>wallet\<close> is set, each hash when it is a non-empty
  string, the two account forms when there is no wallet, the signing form when there
  is one.
\<close>

record view =
  subOrgIdShown :: "string option"
  smartAccountAddressShown :: "string option option"
  userOpHashShown :: "string option"
  txHashShown :: "string option"
  accountForms :: bool
  signingForm :: bool

definition render :: "state \<Rightarrow> view" where
  "render s =
     \<lparr>subOrgIdShown = map_option subOrgId (wallet s),
      smartAccountAddressShown =
        (case wallet s of
           None \<Rightarrow> None
         | Some _ \<Rightarrow> Some (map_option accountAddress (smartWallet s))),
      userOpHashShown = (if userOpHash s \<noteq> [] then Some (userOpHash s) else None),
      txHashShown = (if txHash s \<noteq> [] then Some (txHash s) else None),
      accountForms = (wallet s = None),
      signingForm = (wallet s \<noteq> None)\<rparr>"

text \<open>
  The states a session can be in: the initial state, and the state after any run of a
  handler whose form the page shows, one run at a time, whatever the services answer.
\<close>

inductive reachable :: "state \<Rightarrow> bool" where
  reach_initial: "reachable initial"
| reach_create:
    "reachable s \<Longrightarrow> accountForms (render s) \<Longrightarrow>
     reachable (after s (fst (createSubOrgAndWallet sv localeString)))"
| reach_login:
    "reachable s \<Longrightarrow> accountForms (render s) \<Longrightarrow> reachable (after s (login sv))"
| reach_sign:
    "reachable s \<Longrightarrow> signingForm (render s) \<Longrightarrow> reachable (after s (signMessage sv cfg s))"

text \<open>Kinds of events.\<close>

fun is_call :: "event \<Rightarrow> bool" where
  "is_call (Call c) = True"
| "is_call ev = False"

fun is_signing_request :: "event \<Rightarrow> bool" where
  "is_signing_request (Call (SignTypedData c r)) = True"
| "is_signing_request ev = False"

fun is_submission :: "event \<Rightarrow> bool" where
  "is_submission (Call (SendUserOperation a u b)) = True"
| "is_submission ev = False"

fun is_sponsorship_request :: "event \<Rightarrow> bool" where
  "is_sponsorship_request (Call (CreateSponsorPaymasterUserOperation p u b i)) = True"
| "is_sponsorship_request ev = False"

subsection \<open>Fixtures\<close>

text \<open>A configuration and services that answer every call, used to run the handlers.\<close>

definition testConfig :: config where
  "testConfig =
     \<lparr>bundlerUrl = ''bundler'', chainId = 11155111, paymasterUrl = ''paymaster'',
      nodeUrl = ''node'', sponsorshipId = ''policy''\<rparr>"

definition testUserOp :: UserOperation where
  "testUserOp =
     \<lparr>sender = ''0xSafe'', nonce = 0, callData = ''0xcall'', callGasLimit = 1,
      verificationGasLimit = 2, preVerificationGas = 3, maxFeePerGas = 4,
      maxPriorityFeePerGas = 5, paymaster = [], paymasterVerificationGasLimit = 0,
      paymasterPostOpGasLimit = 0, paymasterData = [], signature = ''0xdummy''\<rparr>"

definition okServices :: services where
  "okServices =
     \<lparr>passkeyClient = True,
      turnkey = True,
      createAccount = (\<lambda>org signWith eth.
        Inr \<lparr>signerOrganizationId = org, signerAddress = eth\<rparr>),
      createUserOperation = (\<lambda>sw txs node bundler.
        Inr (testUserOp\<lparr>sender := accountAddress sw\<rparr>)),
      createSponsorPaymasterUserOperation = (\<lambda>url u bundler policy.
        Inr (u\<lparr>callGasLimit := 10, paymaster := ''0xPaymaster'',
                paymasterVerificationGasLimit := 7, paymasterPostOpGasLimit := 8,
                paymasterData := ''0xsponsored''\<rparr>, None)),
      getUserOperationEip712Data = (\<lambda>u c.
        Inr \<lparr>domain = ''domain'', types = ''SafeOp'', messageValue = callData u\<rparr>),
      signTypedData = (\<lambda>c r. Inr ''0xsig''),
      formatEip712SignaturesToUseroperationSignature = (\<lambda>os sigs. Inr (concat sigs)),
      sendUserOperation = (\<lambda>sw u bundler. Inr \<lparr>userOperationHash = ''0xuserop''\<rparr>),
      included = (\<lambda>r. Inr \<lparr>receipt = \<lparr>transactionHash = ''0xtx''\<rparr>\<rparr>),
      createUserPasskey = (\<lambda>name.
        Inr (Some \<lparr>encodedChallenge = ''challenge'', attestation = Some ''attestation''\<rparr>)),
      postCreateSubOrg = (\<lambda>name ch att.
        Inr \<lparr>id' = ''wallet-1'', address = ''0xOwner'', subOrgId = ''org-1''\<rparr>),
      createAccountAddress = (\<lambda>os. Inr (''0xSafe'' @ concat os)),
      passkeyLogin = Inr (Some \<lparr>organizationId = ''org-1''\<rparr>),
      currentUserSession = Inr (Some (UserSession ''session'')),
      getWallets = (\<lambda>cs. Inr (Some \<lparr>wallets = [Wallet ''wallet-1'']\<rparr>)),
      getWalletAccounts = (\<lambda>cs org wid.
        Inr (Some \<lparr>accounts = [WalletAccount ''0xOwner'']\<rparr>))\<rparr>"

definition testWallet :: TWalletDetails where
  "testWallet = \<lparr>id' = ''wallet-1'', address = ''0xOwner'', subOrgId = ''org-1''\<rparr>"

definition testSession :: state where
  "testSession =
     \<lparr>wallet = Some testWallet,
      smartWallet = Some \<lparr>accountAddress = ''0xSafe0xOwner'', owners = [''0xOwner'']\<rparr>,
      txHash = ''0xold'', userOpHash = ''0xolder''\<rparr>"

subsection \<open>Proof helpers\<close>

text \<open>Putting one event in front of a run.\<close>

definition prepend :: "event \<Rightarrow> 'a run \<Rightarrow> 'a run" where
  "prepend ev m = (ev # fst m, snd m)"

text \<open>Fixtures for the failing paths.\<close>

definition cancelled :: exn where
  "cancelled = JsError ''Error'' ''user cancelled''"

definition staleAnonymous :: state where
  "staleAnonymous =
     \<lparr>wallet = None, smartWallet = None, txHash = ''0xold'', userOpHash = ''0xolder''\<rparr>"

definition signingRejected :: services where
  "signingRejected = okServices\<lparr>signTypedData := (\<lambda>c r. Inl cancelled)\<rparr>"

definition sponsorshipDenied :: services where
  "sponsorshipDenied =
     okServices\<lparr>createSponsorPaymasterUserOperation :=
       (\<lambda>url u bundler policy. Inl (JsError ''Error'' ''sponsorship denied''))\<rparr>"

definition testViemClient :: WalletClient where
  "testViemClient =
     createWalletClient \<lparr>signerOrganizationId = ''org-1'', signerAddress = ''0xOwner''\<rparr>"

definition testRequest :: TypedDataRequest where
  "testRequest =
     \<lparr>reqDomain = ''domain'', reqTypes = ''SafeOp'', reqMessage = ''0xcall'',
      primaryType = ''SafeOp''\<rparr>"

definition testBuilderOp :: UserOperation where
  "testBuilderOp = testUserOp\<lparr>sender := ''0xSafe0xOwner''\<rparr>"


definition testSponsoredOp :: UserOperation where
  "testSponsoredOp =
     testBuilderOp\<lparr>callGasLimit := 10, paymaster := ''0xPaymaster'',
       paymasterVerificationGasLimit := 7, paymasterPostOpGasLimit := 8,
       paymasterData := ''0xsponsored''\<rparr>"

definition testAccount :: SafeAccount where
  "testAccount = \<lparr>accountAddress = ''0xSafe0xOwner'', owners = [''0xOwner'']\<rparr>"

definition noWallets :: services where
  "noWallets = okServices\<lparr>getWallets := (\<lambda>cs. Inr (Some \<lparr>wallets = []\<rparr>))\<rparr>"

definition noAccounts :: services where
  "noAccounts =
     okServices\<lparr>getWalletAccounts := (\<lambda>cs org wid. Inr (Some \<lparr>accounts = []\<rparr>))\<rparr>"

definition rejectingDeriver :: services where
  "rejectingDeriver =
     okServices\<lparr>createAccountAddress := (\<lambda>os. Inl (JsError ''Error'' ''invalid address''))\<rparr>"

definition mismatchedSession :: state where
  "mismatchedSession =
     testSession\<lparr>smartWallet :=
       Some \<lparr>accountAddress = ''0xSafe0xOther'', owners = [''0xOther'']\<rparr>\<rparr>"

definition createdSession :: state where
  "createdSession = after initial (fst (createSubOrgAndWallet okServices ''1/2/2024''))"

text \<open>
  The session invariant: a stored smart account comes with a stored wallet, and its
  owners are the wallet's address alone.
\<close>

definition session_consistent :: "state \<Rightarrow> bool" where
  "session_consistent s =
     (case smartWallet s of
        None \<Rightarrow> True
      | Some sa \<Rightarrow>
          (case wallet s of None \<Rightarrow> False | Some w \<Rightarrow> owners sa = [address w]))"

text \<open>Services whose typed data spells out the operation's call and paymaster fields.\<close>

definition typedDataOfFields :: services where
  "typedDataOfFields =
     okServices\<lparr>getUserOperationEip712Data := (\<lambda>u c.
       Inr \<lparr>domain = ''domain'', types = ''SafeOp'',
            messageValue = callData u @ paymaster u @ paymasterData u\<rparr>)\<rparr>"

section \<open>Properties\<close>

subsection \<open>Rewriting runs\<close>

lemma prepend_pair [simp]: "prepend ev (t, r) = (ev # t, r)"
  by (simp add: prepend_def)

lemma seq_emit: "seq (emit ev) f = prepend ev (f ())"
  by (simp add: seq_def emit_def prepend_def split: prod.splits)

lemma seq_await:
  "seq (await c r) f =
     (case r of Inl e \<Rightarrow> ([Call c], Inl e) | Inr x \<Rightarrow> prepend (Call c) (f x))"
  by (simp add: seq_def await_def prepend_def split: prod.splits sum.splits)

lemma seq_ret: "seq (ret x) f = f x"
  by (simp add: seq_def ret_def split: prod.splits)

lemma seq_throw: "seq (throw e) f = ([], Inl e)"
  by (simp add: seq_def throw_def)

lemma prepend_emit: "prepend ev (emit ev') = ([ev, ev'], Inr ())"
  by (simp add: emit_def)

lemma prepend_ret: "prepend ev (ret x) = ([ev], Inr x)"
  by (simp add: ret_def)

lemma seq_thrown: "seq (t, Inl e) f = (t, Inl e)"
  by (simp add: seq_def)

lemma seq_returned: "seq ([], Inr x) f = f x"
  by (simp add: seq_def split: prod.splits)

lemmas run_simps =
  seq_emit seq_await seq_ret seq_throw seq_thrown seq_returned prepend_emit prepend_ret
  optionalCall_def

lemma after_Nil [simp]: "after s [] = s"
  by (simp add: after_def)

lemma after_Cons [simp]: "after s (ev # t) = after (apply_event s ev) t"
  by (simp add: after_def)

lemma after_append [simp]: "after s (t @ t') = after (after s t) t'"
  by (simp add: after_def)

lemma login_catch_sets_nothing [simp]:
  "SetWallet w \<notin> set (login_catch e)" "SetSmartWallet a \<notin> set (login_catch e)"
  by (simp_all add: login_catch_def Let_def split: sum.split)

lemma after_login_catch [simp]: "after s (login_catch e) = s"
  by (simp add: login_catch_def Let_def split: sum.split)

lemmas fixture_defs =
  okServices_def testConfig_def testSession_def testWallet_def testUserOp_def
  testViemClient_def testRequest_def testBuilderOp_def testSponsoredOp_def
  testAccount_def createWalletClient_def zeroAddress_def cancelled_def
  signingRejected_def

subsection \<open>signMessage: reset, guard and failure paths\<close>

text \<open>
  C10. Every run of \<open>signMessage\<close> starts by setting \<open>txHash\<close> and then
  \<open>userOpHash\<close> to the empty string. When \<open>wallet\<close> or \<open>smartWallet\<close> is absent the
  run consists of these two resets, the log entry and the alert \<open>wallet not found\<close>:
  it makes no call at all. A run that throws at any stage leaves \<open>txHash\<close> empty,
  so the page shows no transaction hash for it, whatever an earlier run had left.
\<close>

theorem signMessage_resets_results:
  "(\<exists>rest. signMessage sv cfg s = SetTxHash [] # SetUserOpHash [] # rest) \<and>
   (wallet s = None \<or> smartWallet s = None \<longrightarrow>
      signMessage sv cfg s =
        [SetTxHash [], SetUserOpHash [],
         ConsoleError ''Error:'' (Some (JsError ''Error'' ''wallet not found'')),
         Alert ''Failed to submit user operation: wallet not found'']) \<and>
   ((\<exists>e. snd (signMessage_try sv cfg s) = Inl e) \<longrightarrow>
      txHash (after s (signMessage sv cfg s)) = [] \<and>
      txHashShown (render (after s (signMessage sv cfg s))) = None)"
  by (simp add: signMessage_def signMessage_try_def run_simps throw_def Let_def render_def
           split: option.split sum.split)

theorem signMessage_resets_results_witness:
  "(wallet staleAnonymous = None \<or> smartWallet staleAnonymous = None) \<and>
   txHash staleAnonymous = ''0xold'' \<and>
   signMessage okServices testConfig staleAnonymous =
     [SetTxHash [], SetUserOpHash [],
      ConsoleError ''Error:'' (Some (JsError ''Error'' ''wallet not found'')),
      Alert ''Failed to submit user operation: wallet not found''] \<and>
   snd (signMessage_try signingRejected testConfig testSession) = Inl cancelled \<and>
   txHash testSession = ''0xold'' \<and>
   txHash (after testSession (signMessage signingRejected testConfig testSession)) = [] \<and>
   txHashShown (render (after testSession
     (signMessage signingRejected testConfig testSession))) = None"
proof -
  have absent: "wallet staleAnonymous = None \<or> smartWallet staleAnonymous = None"
    by (simp add: staleAnonymous_def)
  have throws: "snd (signMessage_try signingRejected testConfig testSession) = Inl cancelled"
    by (simp add: signMessage_try_def run_simps Let_def fixture_defs)
  have old: "txHash staleAnonymous = ''0xold''" "txHash testSession = ''0xold''"
    by (simp_all add: staleAnonymous_def fixture_defs)
  from throws have ex: "\<exists>e. snd (signMessage_try signingRejected testConfig testSession) = Inl e"
    by blast
  show ?thesis
    using signMessage_resets_results [of okServices testConfig staleAnonymous]
      signMessage_resets_results [of signingRejected testConfig testSession]
      absent throws ex old
    by blast
qed

text \<open>
  C2. When the structured-data signing call of a run fails, the run ends with the alert
  that carries the failure's message, and it contains no \<open>sendUserOperation\<close> call.
\<close>

theorem signing_failure_never_submits:
  assumes "Call (SignTypedData c r) \<in> set (signMessage sv cfg s)"
    and "signTypedData sv c r = Inl e"
  shows "\<not> list_ex is_submission (signMessage sv cfg s) \<and>
         last (signMessage sv cfg s) =
           Alert (''Failed to submit user operation: '' @ errorMessage e)"
proof -
  have "Call (SignTypedData c r) \<in> set (signMessage sv cfg s) \<longrightarrow>
        signTypedData sv c r = Inl e \<longrightarrow> ?thesis"
    by (simp add: signMessage_def signMessage_try_def run_simps throw_def Let_def
             split: option.split sum.split)
  with assms show ?thesis by blast
qed

theorem signing_failure_never_submits_witness:
  "Call (SignTypedData testViemClient testRequest)
     \<in> set (signMessage signingRejected testConfig testSession) \<and>
   signTypedData signingRejected testViemClient testRequest = Inl cancelled \<and>
   \<not> list_ex is_submission (signMessage signingRejected testConfig testSession) \<and>
   last (signMessage signingRejected testConfig testSession) =
     Alert ''Failed to submit user operation: user cancelled''"
proof -
  have made: "Call (SignTypedData testViemClient testRequest)
                \<in> set (signMessage signingRejected testConfig testSession)"
    by (simp add: signMessage_def signMessage_try_def run_simps Let_def fixture_defs)
  have fails: "signTypedData signingRejected testViemClient testRequest = Inl cancelled"
    by (simp add: fixture_defs)
  show ?thesis
    using signing_failure_never_submits [OF made fails] made fails
    by (simp add: cancelled_def)
qed

text \<open>
  C3. When the paymaster call of a run fails, the run ends with the alert that carries
  the failure's message and contains no signing request. In every run that does
  contain a signing request, a paymaster call comes before the first one.
\<close>

theorem sponsorship_failure_precedes_signing:
  "(Call (CreateSponsorPaymasterUserOperation p u b i) \<in> set (signMessage sv cfg s) \<longrightarrow>
    createSponsorPaymasterUserOperation sv p u b i = Inl e \<longrightarrow>
      \<not> list_ex is_signing_request (signMessage sv cfg s) \<and>
      last (signMessage sv cfg s) =
        Alert (''Failed to submit user operation: '' @ errorMessage e)) \<and>
   (list_ex is_signing_request (signMessage sv cfg s) \<longrightarrow>
      list_ex is_sponsorship_request
        (takeWhile (\<lambda>ev. \<not> is_signing_request ev) (signMessage sv cfg s)))"
  by (simp add: signMessage_def signMessage_try_def run_simps throw_def Let_def
           split: option.split sum.split)

theorem sponsorship_failure_precedes_signing_witness:
  "Call (CreateSponsorPaymasterUserOperation ''paymaster'' testBuilderOp ''bundler'' ''policy'')
     \<in> set (signMessage sponsorshipDenied testConfig testSession) \<and>
   createSponsorPaymasterUserOperation sponsorshipDenied
     ''paymaster'' testBuilderOp ''bundler'' ''policy''
     = Inl (JsError ''Error'' ''sponsorship denied'') \<and>
   \<not> list_ex is_signing_request (signMessage sponsorshipDenied testConfig testSession) \<and>
   last (signMessage sponsorshipDenied testConfig testSession) =
     Alert ''Failed to submit user operation: sponsorship denied'' \<and>
   list_ex is_signing_request (signMessage okServices testConfig testSession) \<and>
   list_ex is_sponsorship_request
     (takeWhile (\<lambda>ev. \<not> is_signing_request ev)
        (signMessage okServices testConfig testSession))"
proof -
  have made:
    "Call (CreateSponsorPaymasterUserOperation ''paymaster'' testBuilderOp ''bundler'' ''policy'')
       \<in> set (signMessage sponsorshipDenied testConfig testSession)"
    by (simp add: signMessage_def signMessage_try_def run_simps Let_def
          sponsorshipDenied_def fixture_defs)
  have fails:
    "createSponsorPaymasterUserOperation sponsorshipDenied
       ''paymaster'' testBuilderOp ''bundler'' ''policy''
       = Inl (JsError ''Error'' ''sponsorship denied'')"
    by (simp add: sponsorshipDenied_def fixture_defs)
  have signs: "list_ex is_signing_request (signMessage okServices testConfig testSession)"
    by (simp add: signMessage_def signMessage_try_def run_simps Let_def fixture_defs)
  show ?thesis
    using sponsorship_failure_precedes_signing
        [of "''paymaster''" testBuilderOp "''bundler''" "''policy''" sponsorshipDenied
            testConfig testSession "JsError ''Error'' ''sponsorship denied''"]
      sponsorship_failure_precedes_signing
        [of "''paymaster''" testBuilderOp "''bundler''" "''policy''" okServices
            testConfig testSession "JsError ''Error'' ''sponsorship denied''"]
      made fails signs
    by simp
qed

subsection \<open>signMessage: the successful run\<close>






text \<open>
  C8. When the paymaster call of a run is answered with an operation, that operation
  is the one carried forward. The typed data is derived from it and from no other
  operation; every signing request of the run carries exactly the domain, types and
  message of that typed data; the signatures formatted are the answer to such a
  request; and every operation the run submits is the paymaster's operation with
  \<open>signature\<close> set to the formatted signature and nothing else changed: all its
  other fields, the paymaster fields among them, are the paymaster's. The builder's
  operation reaches nothing but the paymaster call.
\<close>

theorem paymaster_operation_supersedes_builder:
  assumes "Call (CreateSponsorPaymasterUserOperation p bo b i) \<in> set (signMessage sv cfg s)"
    and "createSponsorPaymasterUserOperation sv p bo b i = Inr (po, meta)"
  shows "Call (GetUserOperationEip712Data po (chainId cfg)) \<in> set (signMessage sv cfg s) \<and>
    (\<forall>uo c. Call (GetUserOperationEip712Data uo c) \<in> set (signMessage sv cfg s)
       \<longrightarrow> uo = po) \<and>
    (\<forall>vc req. Call (SignTypedData vc req) \<in> set (signMessage sv cfg s)
       \<longrightarrow> (\<exists>d. getUserOperationEip712Data sv po (chainId cfg) = Inr d \<and>
              req = \<lparr>reqDomain = domain d, reqTypes = types d,
                     reqMessage = messageValue d, primaryType = ''SafeOp''\<rparr>)) \<and>
    (\<forall>os sigs. Call (FormatEip712Signatures os sigs) \<in> set (signMessage sv cfg s)
       \<longrightarrow> (\<exists>vc req sg. Call (SignTypedData vc req) \<in> set (signMessage sv cfg s) \<and>
              signTypedData sv vc req = Inr sg \<and> sigs = [sg])) \<and>
    (\<forall>sw uo b'. Call (SendUserOperation sw uo b') \<in> set (signMessage sv cfg s)
       \<longrightarrow> (\<exists>os sigs fs.
              Call (FormatEip712Signatures os sigs) \<in> set (signMessage sv cfg s) \<and>
              formatEip712SignaturesToUseroperationSignature sv os sigs = Inr fs \<and>
              uo = po\<lparr>signature := fs\<rparr>) \<and>
           uo\<lparr>signature := signature po\<rparr> = po \<and>
           paymaster uo = paymaster po \<and>
           paymasterData uo = paymasterData po \<and>
           paymasterVerificationGasLimit uo = paymasterVerificationGasLimit po \<and>
           paymasterPostOpGasLimit uo = paymasterPostOpGasLimit po)"
proof -
  have "Call (CreateSponsorPaymasterUserOperation p bo b i) \<in> set (signMessage sv cfg s)
        \<longrightarrow> createSponsorPaymasterUserOperation sv p bo b i = Inr (po, meta)
        \<longrightarrow> ?thesis"
    by (simp add: signMessage_def signMessage_try_def run_simps throw_def Let_def
             split: option.split sum.split) blast+
  with assms show ?thesis by blast
qed

theorem paymaster_operation_supersedes_builder_witness:
  "Call (CreateSponsorPaymasterUserOperation ''paymaster'' testBuilderOp ''bundler'' ''policy'')
     \<in> set (signMessage typedDataOfFields testConfig testSession) \<and>
   createSponsorPaymasterUserOperation typedDataOfFields
     ''paymaster'' testBuilderOp ''bundler'' ''policy'' = Inr (testSponsoredOp, None) \<and>
   paymaster testBuilderOp \<noteq> paymaster testSponsoredOp \<and>
   getUserOperationEip712Data typedDataOfFields testBuilderOp (chainId testConfig) =
     Inr \<lparr>domain = ''domain'', types = ''SafeOp'', messageValue = ''0xcall''\<rparr> \<and>
   getUserOperationEip712Data typedDataOfFields testSponsoredOp (chainId testConfig) =
     Inr \<lparr>domain = ''domain'', types = ''SafeOp'',
          messageValue = ''0xcall0xPaymaster0xsponsored''\<rparr> \<and>
   Call (GetUserOperationEip712Data testSponsoredOp (chainId testConfig))
     \<in> set (signMessage typedDataOfFields testConfig testSession) \<and>
   Call (SignTypedData testViemClient
           \<lparr>reqDomain = ''domain'', reqTypes = ''SafeOp'',
            reqMessage = ''0xcall0xPaymaster0xsponsored'', primaryType = ''SafeOp''\<rparr>)
     \<in> set (signMessage typedDataOfFields testConfig testSession) \<and>
   (\<exists>d. getUserOperationEip712Data typedDataOfFields testSponsoredOp
            (chainId testConfig) = Inr d \<and>
        \<lparr>reqDomain = ''domain'', reqTypes = ''SafeOp'',
         reqMessage = ''0xcall0xPaymaster0xsponsored'', primaryType = ''SafeOp''\<rparr> =
        \<lparr>reqDomain = domain d, reqTypes = types d,
         reqMessage = messageValue d, primaryType = ''SafeOp''\<rparr>) \<and>
   Call (SendUserOperation testAccount (testSponsoredOp\<lparr>signature := ''0xsig''\<rparr>) ''bundler'')
     \<in> set (signMessage typedDataOfFields testConfig testSession) \<and>
   paymaster (testSponsoredOp\<lparr>signature := ''0xsig''\<rparr>) = ''0xPaymaster''"
proof -
  have made:
    "Call (CreateSponsorPaymasterUserOperation ''paymaster'' testBuilderOp ''bundler'' ''policy'')
       \<in> set (signMessage typedDataOfFields testConfig testSession)"
    by (simp add: signMessage_def signMessage_try_def run_simps Let_def
          typedDataOfFields_def fixture_defs)
  have answered:
    "createSponsorPaymasterUserOperation typedDataOfFields
       ''paymaster'' testBuilderOp ''bundler'' ''policy'' = Inr (testSponsoredOp, None)"
    by (simp add: typedDataOfFields_def fixture_defs)
  have differs: "paymaster testBuilderOp \<noteq> paymaster testSponsoredOp"
    by (simp add: fixture_defs)
  have typed:
    "getUserOperationEip712Data typedDataOfFields testBuilderOp (chainId testConfig) =
       Inr \<lparr>domain = ''domain'', types = ''SafeOp'', messageValue = ''0xcall''\<rparr>"
    "getUserOperationEip712Data typedDataOfFields testSponsoredOp (chainId testConfig) =
       Inr \<lparr>domain = ''domain'', types = ''SafeOp'',
            messageValue = ''0xcall0xPaymaster0xsponsored''\<rparr>"
    by (simp_all add: typedDataOfFields_def fixture_defs)
  have signed:
    "Call (SignTypedData testViemClient
             \<lparr>reqDomain = ''domain'', reqTypes = ''SafeOp'',
              reqMessage = ''0xcall0xPaymaster0xsponsored'', primaryType = ''SafeOp''\<rparr>)
       \<in> set (signMessage typedDataOfFields testConfig testSession)"
    by (simp add: signMessage_def signMessage_try_def run_simps Let_def
          typedDataOfFields_def fixture_defs)
  have sent:
    "Call (SendUserOperation testAccount (testSponsoredOp\<lparr>signature := ''0xsig''\<rparr>)
             ''bundler'')
       \<in> set (signMessage typedDataOfFields testConfig testSession)"
    by (simp add: signMessage_def signMessage_try_def run_simps Let_def
          typedDataOfFields_def fixture_defs)
  have pm: "paymaster (testSponsoredOp\<lparr>signature := ''0xsig''\<rparr>) = ''0xPaymaster''"
    by (simp add: fixture_defs)
  from paymaster_operation_supersedes_builder [OF made answered]
    made answered differs typed signed sent pm
  show ?thesis
    by blast
qed

subsection \<open>Account creation and login\<close>

lemma initializeNewAccount_owners:
  "initializeNewAccount sv os = Inr a \<Longrightarrow> owners a = os"
  by (auto simp: initializeNewAccount_def split: if_splits sum.splits)

lemma after_calls: "list_all is_call t \<Longrightarrow> after s t = s"
proof (induction t arbitrary: s)
  case Nil
  then show ?case by simp
next
  case (Cons ev t)
  then show ?case by (cases ev) auto
qed

text \<open>
  A run of \<open>createSubOrgAndWallet\<close> either sets nothing and does not reach its end,
  or reaches its end having set both, the account derived from the stored address.
\<close>

lemma createSubOrgAndWallet_outcome:
  "(list_all is_call (fst (createSubOrgAndWallet sv now)) \<and>
    snd (createSubOrgAndWallet sv now) \<noteq> Inr None) \<or>
   (\<exists>name ch att w a.
      postCreateSubOrg sv name ch att = Inr w \<and>
      initializeNewAccount sv [address w] = Inr a \<and>
      createSubOrgAndWallet sv now =
        ([Call (CreateUserPasskey name), Call (PostCreateSubOrg name ch att),
          Call (InitializeNewAccount [address w]), SetSmartWallet a, SetWallet w],
         Inr None))"
  by (simp add: createSubOrgAndWallet_def run_simps ret_def Let_def
           split: option.split sum.split)

text \<open>
  A run of \<open>login\<close> sets nothing, or sets both, or sets \<open>wallet\<close> and then fails to
  derive the account.
\<close>

lemma login_outcome:
  "(\<forall>w. SetWallet w \<notin> set (login sv)) \<and> (\<forall>a. SetSmartWallet a \<notin> set (login sv)) \<or>
   (\<exists>cs org wid addr a.
      initializeNewAccount sv [addr] = Inr a \<and>
      login sv =
        [Call PasskeyLogin, Call CurrentUserSession, Call (GetWallets cs),
         Call (GetWalletAccounts cs org wid),
         SetWallet \<lparr>id' = wid, address = addr, subOrgId = org\<rparr>,
         Call (InitializeNewAccount [addr]), SetSmartWallet a]) \<or>
   (\<exists>cs org wid addr e.
      initializeNewAccount sv [addr] = Inl e \<and>
      login sv =
        [Call PasskeyLogin, Call CurrentUserSession, Call (GetWallets cs),
         Call (GetWalletAccounts cs org wid),
         SetWallet \<lparr>id' = wid, address = addr, subOrgId = org\<rparr>,
         Call (InitializeNewAccount [addr])] @ login_catch e)"
  by (simp add: login_def login_try_def firstWalletId_def firstAccountAddress_def
           run_simps throw_def ret_def Let_def
           split: option.split sum.split list.split)




subsection \<open>The session invariant\<close>

lemma wallet_after_no_set:
  "\<forall>w. SetWallet w \<notin> set t \<Longrightarrow> wallet (after s t) = wallet s"
proof (induction t arbitrary: s)
  case Nil
  then show ?case by simp
next
  case (Cons ev t)
  then show ?case by (cases ev) auto
qed

lemma smartWallet_after_no_set:
  "\<forall>a. SetSmartWallet a \<notin> set t \<Longrightarrow> smartWallet (after s t) = smartWallet s"
proof (induction t arbitrary: s)
  case Nil
  then show ?case by simp
next
  case (Cons ev t)
  then show ?case by (cases ev) auto
qed

lemma signMessage_sets_no_session:
  "(\<forall>w. SetWallet w \<notin> set (signMessage sv cfg s)) \<and>
   (\<forall>a. SetSmartWallet a \<notin> set (signMessage sv cfg s))"
  by (simp add: signMessage_def signMessage_try_def run_simps throw_def Let_def
           split: option.split sum.split)

lemma signMessage_keeps_session:
  "wallet (after s (signMessage sv cfg s)) = wallet s \<and>
   smartWallet (after s (signMessage sv cfg s)) = smartWallet s"
  using signMessage_sets_no_session [of sv cfg s]
  by (simp add: wallet_after_no_set smartWallet_after_no_set)

lemma session_consistent_same:
  "wallet s' = wallet s \<Longrightarrow> smartWallet s' = smartWallet s \<Longrightarrow>
   session_consistent s' = session_consistent s"
  by (auto simp: session_consistent_def split: option.splits)

lemma create_keeps_consistent:
  assumes "session_consistent s"
  shows "session_consistent (after s (fst (createSubOrgAndWallet sv now)))"
proof -
  from createSubOrgAndWallet_outcome [of sv now]
  consider (nothing) "list_all is_call (fst (createSubOrgAndWallet sv now))"
    | (both) name ch att w a where "initializeNewAccount sv [address w] = Inr a"
        "fst (createSubOrgAndWallet sv now) =
           [Call (CreateUserPasskey name), Call (PostCreateSubOrg name ch att),
            Call (InitializeNewAccount [address w]), SetSmartWallet a, SetWallet w]"
    by fastforce
  then show ?thesis
  proof cases
    case nothing
    with assms show ?thesis by (simp add: after_calls)
  next
    case both
    then show ?thesis
      by (simp add: session_consistent_def initializeNewAccount_owners)
  qed
qed


lemma login_keeps_consistent:
  assumes "session_consistent s" and "wallet s = None"
  shows "session_consistent (after s (login sv))"
proof -
  from assms have none: "smartWallet s = None"
    by (simp add: session_consistent_def split: option.splits)
  from login_outcome [of sv]
  consider (nothing) "\<forall>w. SetWallet w \<notin> set (login sv)"
        "\<forall>a. SetSmartWallet a \<notin> set (login sv)"
    | (both) cs org wid addr a where "initializeNewAccount sv [addr] = Inr a"
        "login sv =
           [Call PasskeyLogin, Call CurrentUserSession, Call (GetWallets cs),
            Call (GetWalletAccounts cs org wid),
            SetWallet \<lparr>id' = wid, address = addr, subOrgId = org\<rparr>,
            Call (InitializeNewAccount [addr]), SetSmartWallet a]"
    | (wallet_only) cs org wid addr e where
        "login sv =
           [Call PasskeyLogin, Call CurrentUserSession, Call (GetWallets cs),
            Call (GetWalletAccounts cs org wid),
            SetWallet \<lparr>id' = wid, address = addr, subOrgId = org\<rparr>,
            Call (InitializeNewAccount [addr])] @ login_catch e"
    by blast
  then show ?thesis
  proof cases
    case nothing
    then have "wallet (after s (login sv)) = wallet s"
      and "smartWallet (after s (login sv)) = smartWallet s"
      by (simp_all add: wallet_after_no_set smartWallet_after_no_set)
    with assms(1) show ?thesis
      using session_consistent_same [of "after s (login sv)" s] by blast
  next
    case both
    then show ?thesis
      by (simp add: session_consistent_def initializeNewAccount_owners)
  next
    case wallet_only
    with none show ?thesis
      by (simp add: session_consistent_def)
  qed
qed

lemma reachable_consistent: "reachable s \<Longrightarrow> session_consistent s"
proof (induction rule: reachable.induct)
  case reach_initial
  show ?case by (simp add: session_consistent_def initial_def)
next
  case (reach_create s sv localeString)
  then show ?case by (simp add: create_keeps_consistent)
next
  case (reach_login s sv)
  then show ?case by (simp add: login_keeps_consistent render_def)
next
  case (reach_sign s sv cfg)
  from signMessage_keeps_session [of s sv cfg]
  have "wallet (after s (signMessage sv cfg s)) = wallet s"
    and "smartWallet (after s (signMessage sv cfg s)) = smartWallet s"
    by simp_all
  with reach_sign.IH show ?case
    using session_consistent_same [of "after s (signMessage sv cfg s)" s] by blast
qed

lemma formatting_owner_is_wallet_address:
  "Call (FormatEip712Signatures os sigs) \<in> set (signMessage sv cfg s) \<longrightarrow>
   (\<exists>w. wallet s = Some w \<and> os = [address w]) \<and> smartWallet s \<noteq> None"
  by (simp add: signMessage_def signMessage_try_def run_simps throw_def Let_def
           split: option.split sum.split)

text \<open>
  C1, as the code has it. In every state the page can reach through runs of its own
  handlers, every owner list that \<open>signMessage\<close> passes to signature formatting is the
  list holding the session wallet's address alone, and that list is the owner list of
  the session's smart account. The handler compares no owner lists.
\<close>

theorem formatting_owners_are_session_owners:
  assumes "reachable s"
    and "Call (FormatEip712Signatures os sigs) \<in> set (signMessage sv cfg s)"
  shows "\<exists>w sa. wallet s = Some w \<and> smartWallet s = Some sa \<and>
           os = [address w] \<and> owners sa = os"
proof -
  from assms(2) formatting_owner_is_wallet_address [of os sigs sv cfg s]
  obtain w sa where "wallet s = Some w" "os = [address w]" "smartWallet s = Some sa"
    by blast
  moreover from reachable_consistent [OF assms(1)] calculation
  have "owners sa = [address w]"
    by (simp add: session_consistent_def)
  ultimately show ?thesis by simp
qed

theorem formatting_owners_are_session_owners_witness:
  "reachable createdSession \<and>
   Call (FormatEip712Signatures [''0xOwner''] [''0xsig''])
     \<in> set (signMessage okServices testConfig createdSession) \<and>
   (\<exists>w sa. wallet createdSession = Some w \<and> smartWallet createdSession = Some sa \<and>
      [''0xOwner''] = [address w] \<and> owners sa = [''0xOwner''])"
proof -
  have "accountForms (render initial)"
    by (simp add: render_def initial_def)
  with reach_initial have reach: "reachable createdSession"
    unfolding createdSession_def by (rule reach_create)
  have created: "createdSession =
      \<lparr>wallet = Some testWallet, smartWallet = Some testAccount, txHash = [],
       userOpHash = []\<rparr>"
    by (simp add: createdSession_def createSubOrgAndWallet_def initializeNewAccount_def
          run_simps Let_def initial_def fixture_defs)
  have formatted: "Call (FormatEip712Signatures [''0xOwner''] [''0xsig''])
     \<in> set (signMessage okServices testConfig createdSession)"
    by (simp add: created signMessage_def signMessage_try_def run_simps Let_def fixture_defs)
  from formatting_owners_are_session_owners [OF reach formatted] reach formatted
  show ?thesis
    by blast
qed

text \<open>
  C1, as stated, fails: a session whose smart account has another owner than the
  wallet's address is not rejected. The run formats the signature with the wallet's
  address, submits the operation and reports its hashes, with no alert.
\<close>

theorem mismatched_owners_are_submitted:
  "wallet mismatchedSession = Some testWallet \<and>
   owners \<lparr>accountAddress = ''0xSafe0xOther'', owners = [''0xOther'']\<rparr>
     \<noteq> [address testWallet] \<and>
   signMessage okServices testConfig mismatchedSession =
     [SetTxHash [], SetUserOpHash [],
      Call (CreateAccount ''org-1'' ''0xOwner'' ''0xOwner''),
      Call (CreateUserOperation
              \<lparr>accountAddress = ''0xSafe0xOther'', owners = [''0xOther'']\<rparr>
              [\<lparr>mtTo = zeroAddress, mtValue = 0, mtData = ''0x''\<rparr>] ''node'' ''bundler''),
      Call (CreateSponsorPaymasterUserOperation ''paymaster''
              (testUserOp\<lparr>sender := ''0xSafe0xOther''\<rparr>) ''bundler'' ''policy''),
      Call (GetUserOperationEip712Data
              (testSponsoredOp\<lparr>sender := ''0xSafe0xOther''\<rparr>) 11155111),
      Call (SignTypedData testViemClient testRequest),
      Call (FormatEip712Signatures [''0xOwner''] [''0xsig'']),
      Call (SendUserOperation
              \<lparr>accountAddress = ''0xSafe0xOther'', owners = [''0xOther'']\<rparr>
              (testSponsoredOp\<lparr>sender := ''0xSafe0xOther'', signature := ''0xsig''\<rparr>)
              ''bundler''),
      SetUserOpHash ''0xuserop'',
      Call (Included \<lparr>userOperationHash = ''0xuserop''\<rparr>),
      SetTxHash ''0xtx'']"
  by (simp add: signMessage_def signMessage_try_def run_simps Let_def
        mismatchedSession_def fixture_defs)

subsection \<open>login: the guards and the order of the two setters\<close>

text \<open>
  What the four guards do. An undefined answer, an empty organization id, wallet id
  or address end the run after the call, with nothing set, logged or alerted.
\<close>

lemma login_no_client: "\<not> passkeyClient sv \<Longrightarrow> login sv = []"
  by (simp add: login_def login_try_def run_simps ret_def)

lemma login_no_organization:
  assumes "passkeyClient sv" and "passkeyLogin sv = Inr r"
    and "r = None \<or> (\<exists>lr. r = Some lr \<and> organizationId lr = [])"
  shows "login sv = [Call PasskeyLogin]"
  using assms
  by (auto simp: login_def login_try_def run_simps ret_def)

lemma login_no_session:
  assumes "passkeyClient sv" and "passkeyLogin sv = Inr (Some lr)"
    and "organizationId lr \<noteq> []"
    and "turnkey sv" and "currentUserSession sv = Inr None"
  shows "login sv = [Call PasskeyLogin, Call CurrentUserSession]"
  using assms
  by (simp add: login_def login_try_def run_simps ret_def)

lemma login_no_wallets_answer:
  assumes "passkeyClient sv" and "passkeyLogin sv = Inr (Some lr)"
    and "organizationId lr \<noteq> []"
    and "turnkey sv" and "currentUserSession sv = Inr (Some cs)"
    and "getWallets sv cs = Inr None"
  shows "login sv = [Call PasskeyLogin, Call CurrentUserSession, Call (GetWallets cs)]"
  using assms
  by (simp add: login_def login_try_def firstWalletId_def run_simps ret_def)

text \<open>
  An empty wallet list is not such a case: element 0 is undefined, reading its
  \<open>walletId\<close> throws inside the \<open>try\<close>, and the \<open>catch\<close> logs and alerts. The
  state is left as it was.
\<close>

lemma login_empty_wallet_list:
  assumes "passkeyClient sv" and "passkeyLogin sv = Inr (Some lr)"
    and "organizationId lr \<noteq> []"
    and "turnkey sv" and "currentUserSession sv = Inr (Some cs)"
    and "getWallets sv cs = Inr (Some r)" and "wallets r = []"
  shows "login sv =
           [Call PasskeyLogin, Call CurrentUserSession, Call (GetWallets cs),
            ConsoleError
              ''caught error: TypeError: Cannot read properties of undefined (reading 'walletId')''
              None,
            Alert
              ''caught error: TypeError: Cannot read properties of undefined (reading 'walletId')'']"
    and "after s (login sv) = s"
  using assms
  by (simp_all add: login_def login_try_def login_catch_def firstWalletId_def
        cannotRead_def cannotReadOf_def run_simps throw_def Let_def)

text \<open>
  A thrown \<open>undefined\<close> or \<open>null\<close> makes \<open>e.toString()\<close> throw in the \<open>catch\<close>
  block, which then logs and alerts nothing.
\<close>

lemma login_catch_nullish: "login_catch (JsNullish v) = []"
  by (simp add: login_catch_def)

text \<open>
  C5, where the code departs from it. With an organization id and a session, a key
  service that answers the wallet query with an empty list, or the account query with
  an empty list, makes \<open>login\<close> end in its \<open>catch\<close> block: the run logs and alerts a
  \<open>TypeError\<close>. Nothing is stored in either run.
\<close>

theorem login_empty_lists_alert:
  "login noWallets =
     [Call PasskeyLogin, Call CurrentUserSession, Call (GetWallets (UserSession ''session'')),
      ConsoleError
        ''caught error: TypeError: Cannot read properties of undefined (reading 'walletId')''
        None,
      Alert
        ''caught error: TypeError: Cannot read properties of undefined (reading 'walletId')''] \<and>
   login noAccounts =
     [Call PasskeyLogin, Call CurrentUserSession, Call (GetWallets (UserSession ''session'')),
      Call (GetWalletAccounts (UserSession ''session'') ''org-1'' ''wallet-1''),
      ConsoleError
        ''caught error: TypeError: Cannot read properties of undefined (reading 'address')''
        None,
      Alert
        ''caught error: TypeError: Cannot read properties of undefined (reading 'address')''] \<and>
   after initial (login noWallets) = initial \<and>
   after initial (login noAccounts) = initial"
  by (simp add: login_def login_try_def login_catch_def firstWalletId_def
        firstAccountAddress_def cannotRead_def cannotReadOf_def
        run_simps throw_def ret_def Let_def initial_def
        noWallets_def noAccounts_def fixture_defs)

text \<open>
  C6, where the code departs from it. \<open>login\<close> stores the wallet before it derives
  the smart account. When the deriver rejects the resolved address, the run ends in
  the \<open>catch\<close> block with \<open>wallet\<close> set and \<open>smartWallet\<close> not set.
  \<open>createSubOrgAndWallet\<close> derives first and stores afterwards: with the same
  deriver it stores nothing.
\<close>

theorem login_stores_wallet_before_deriving:
  "login rejectingDeriver =
     [Call PasskeyLogin, Call CurrentUserSession, Call (GetWallets (UserSession ''session'')),
      Call (GetWalletAccounts (UserSession ''session'') ''org-1'' ''wallet-1''),
      SetWallet testWallet,
      Call (InitializeNewAccount [''0xOwner'']),
      ConsoleError ''caught error: Error: invalid address'' None,
      Alert ''caught error: Error: invalid address''] \<and>
   wallet (after initial (login rejectingDeriver)) = Some testWallet \<and>
   smartWallet (after initial (login rejectingDeriver)) = None \<and>
   snd (createSubOrgAndWallet rejectingDeriver ''1/2/2024'')
     = Inl (JsError ''Error'' ''invalid address'') \<and>
   after initial (fst (createSubOrgAndWallet rejectingDeriver ''1/2/2024'')) = initial"
  by (simp add: login_def login_try_def login_catch_def firstWalletId_def
        firstAccountAddress_def createSubOrgAndWallet_def initializeNewAccount_def
        run_simps throw_def ret_def Let_def initial_def rejectingDeriver_def fixture_defs)

end
